theory Spec2Isabelle
  imports Complex_Main
begin

section \<open>The class InterpFunct of interp\_funct.cpp\<close>

text \<open>
  The class loads a two-column table from a text file, hands it to a cubic-spline
  library and evaluates the resulting function, flat outside the table's range.
  The embedding follows the source function by function. A C++ \<open>double\<close> is a
  \<open>real\<close>: the claims below depend on comparisons and on the direction in which the
  factors 0.99999 and 1.00001 move a bound, never on rounding.
\<close>

subsection \<open>Outcomes of a call\<close>

text \<open>
  A call returns, ends the process through \<open>exit\<close> (with the text it wrote to
  \<open>std::cout\<close> and the exit status), ends the process through \<open>abort\<close> in the
  error handler of the spline library, or has undefined behaviour (an out-of-range
  \<open>operator[]\<close>, the use of a spline that is not allocated). A call that never returns
  is the value \<open>None\<close> of the enclosing \<open>option\<close>.
\<close>

datatype 'a outcome = Returns 'a | Exits string int | Aborts | Undefined

subsection \<open>The input stream\<close>

text \<open>
  The file's content is the sequence of lexemes that \<open>operator>>\<close> for \<open>double\<close>
  cuts it into. \<open>Space\<close> is a whitespace character. The scanner of a number takes the
  longest run of characters that can go on a number (sign, digits, point, exponent):
  \<open>Number d\<close> is such a run that is a complete number, of value \<open>d\<close>;
  \<open>Malformed\<close> is such a run that is not one (\<open>2e\<close>, a lone sign or point).
  \<open>Junk\<close> is a character at which the scanner takes nothing (a letter, \<open>#\<close>). The
  stream carries the unread lexemes and the two state bits the source depends on.
\<close>

datatype lexeme = Space | Number real | Malformed | Junk

text \<open>The largest finite \<open>double\<close>, and the values a \<open>double\<close> can take.\<close>

definition DBL_MAX :: real where
  "DBL_MAX = (2 ^ 53 - 1) * 2 ^ 971"

definition in_range :: "real \<Rightarrow> bool" where
  "in_range d = (\<bar>d\<bar> \<le> DBL_MAX)"

record ifstream =
  rest :: "lexeme list"
  eofbit :: bool
  failbit :: bool

fun skipws :: "lexeme list \<Rightarrow> lexeme list" where
  "skipws (Space # r) = skipws r"
| "skipws r = r"

text \<open>
  \<open>fin >> tmp\<close>. On a stream that is not good the sentry fails: \<open>failbit\<close> is set
  and \<open>tmp\<close> keeps its value. Otherwise leading whitespace is skipped; reaching the
  end there sets \<open>eofbit\<close> and \<open>failbit\<close>, and \<open>tmp\<close> keeps its value. A run that
  the scanner takes is consumed, and \<open>eofbit\<close> is set when its last character is the
  last character of the file (the scanner reads up to the end looking for more). A number
  within the range of \<open>double\<close> is stored; a number beyond it sets \<open>failbit\<close> and
  stores the largest \<open>double\<close> with the number's sign; a run that is no number sets
  \<open>failbit\<close> and stores zero. At a character the scanner does not take, nothing is
  consumed, \<open>failbit\<close> is set and zero is stored.
\<close>

definition stream_get :: "ifstream \<Rightarrow> real \<Rightarrow> ifstream \<times> real" where
  "stream_get fin tmp =
     (if eofbit fin \<or> failbit fin then (fin\<lparr>failbit := True\<rparr>, tmp)
      else case skipws (rest fin) of
          [] \<Rightarrow> (fin\<lparr>rest := [], eofbit := True, failbit := True\<rparr>, tmp)
        | Number d # r \<Rightarrow>
            if in_range d then (fin\<lparr>rest := r, eofbit := (r = [])\<rparr>, d)
            else (fin\<lparr>rest := r, eofbit := (r = []), failbit := True\<rparr>,
                  if 0 < d then DBL_MAX else - DBL_MAX)
        | Malformed # r \<Rightarrow> (fin\<lparr>rest := r, eofbit := (r = []), failbit := True\<rparr>, 0)
        | l # r \<Rightarrow> (fin\<lparr>rest := l # r, failbit := True\<rparr>, 0))"

text \<open>
  The file system as the source asks it: \<open>stat\<close> fails on a name that maps to
  \<open>None\<close>; a file that \<open>stat\<close> finds is opened by the \<open>std::ifstream\<close>
  constructor, which the source never checks, so a file that cannot be opened
  (no read permission, say) gives a stream with \<open>failbit\<close> set.
\<close>

datatype disk_file = Unreadable | Readable "lexeme list"

type_synonym filesystem = "string \<Rightarrow> disk_file option"

definition ifstream_open :: "disk_file \<Rightarrow> ifstream" where
  "ifstream_open f =
     (case f of
        Unreadable \<Rightarrow> \<lparr>rest = [], eofbit = False, failbit = True\<rparr>
      | Readable ls \<Rightarrow> \<lparr>rest = ls, eofbit = False, failbit = False\<rparr>)"

subsection \<open>readTwoColumnData\<close>

text \<open>
  The loop \<open>while(!fin.eof())\<close> of lines 85 to 89. The local \<open>tmp\<close> is declared
  without a value in the loop body: \<open>g\<close> is what it holds before the first
  extraction of an iteration. The loop need not end, so it is a partial function and
  \<open>None\<close> is the run that never leaves the loop (it appends to the two vectors for as
  long as there is memory).
\<close>

partial_function (option) read_loop ::
  "real \<Rightarrow> ifstream \<Rightarrow> real list \<Rightarrow> real list \<Rightarrow> (real list \<times> real list) option" where
  "read_loop g fin x y =
     (if eofbit fin then Some (x, y)
      else
        let (fin1, tmp1) = stream_get fin g;
            x1 = (if \<not> eofbit fin1 then x @ [tmp1] else x);
            (fin2, tmp2) = stream_get fin1 tmp1;
            y1 = (if \<not> eofbit fin2 then y @ [tmp2] else y)
        in read_loop g fin2 x1 y1)"

declare read_loop.simps [code]

definition readTwoColumnData ::
  "real \<Rightarrow> filesystem \<Rightarrow> string \<Rightarrow> real list \<Rightarrow> real list
     \<Rightarrow> (bool \<times> real list \<times> real list) option" where
  "readTwoColumnData g fs name x y =
     (case fs name of
        None \<Rightarrow> Some (False, x, y)
      | Some f \<Rightarrow>
          (case read_loop g (ifstream_open f) x y of
             None \<Rightarrow> None
           | Some (x', y') \<Rightarrow> Some (True, x', y')))"

text \<open>A lexeme that an extraction reads without setting \<open>failbit\<close>.\<close>

fun numeric :: "lexeme \<Rightarrow> bool" where
  "numeric Space = True"
| "numeric (Number d) = in_range d"
| "numeric l = False"

subsection \<open>The spline library\<close>

text \<open>
  The GNU Scientific Library is not part of the repository. The class calls it with its
  default error handler, which prints a message and calls \<open>abort\<close>; the source never
  installs another one. Of the library the model keeps what \<open>init\<close> and \<open>getY\<close>
  depend on:
  \<^item> \<open>gsl_spline_alloc(gsl_interp_cspline, n)\<close> calls the error handler when \<open>n\<close> is
    below the three points a cubic spline needs;
  \<^item> \<open>gsl_spline_init\<close> compares \<open>x[i-1] < x[i]\<close> for every \<open>i\<close> from 1 on and
    calls the error handler when one comparison fails; otherwise it copies the two
    arrays into the spline object, so a live spline is the pair of arrays it was built
    from, and the accelerator lives and dies with it;
  \<^item> \<open>gsl_spline_eval\<close> is a parameter \<open>ev\<close> of \<open>getY\<close>.
\<close>

datatype gsl_spline = Spline "real list" "real list"

definition cspline_min_size :: nat where
  "cspline_min_size = 3"

fun increasing :: "real list \<Rightarrow> bool" where
  "increasing (a # b # r) = (a < b \<and> increasing (b # r))"
| "increasing r = True"

subsection \<open>The object\<close>

text \<open>
  The field \<open>spline\<close> is \<open>None\<close> while the pointer refers to no live allocation
  (never assigned, or freed).
\<close>

record InterpFunct =
  spline :: "gsl_spline option"
  x_min :: real
  x_max :: real
  y_x_min :: real
  y_x_max :: real
  is_unity :: bool
  is_init :: bool

text \<open>
  The constructor sets \<open>is_init\<close> only; every other field keeps what the memory
  \<open>m\<close> of the new object happens to hold.
\<close>

definition constructor :: "InterpFunct \<Rightarrow> InterpFunct" where
  "constructor m = m\<lparr>spline := None, is_init := False\<rparr>"

text \<open>\<open>clear\<close>: freeing a spline that is not allocated is undefined behaviour.\<close>

definition clear :: "InterpFunct \<Rightarrow> InterpFunct outcome" where
  "clear s =
     (if is_init s then
        (case spline s of
           None \<Rightarrow> Undefined
         | Some sp \<Rightarrow>
             Returns (s\<lparr>spline := None, x_min := 0, x_max := 0, y_x_min := 0,
                        y_x_max := 0, is_unity := False, is_init := False\<rparr>))
      else Returns s)"

definition destructor :: "InterpFunct \<Rightarrow> InterpFunct outcome" where
  "destructor s = clear s"

text \<open>
  \<open>init(name, is_ok)\<close>, lines 114 to 151. The result pairs the object with the value
  left in \<open>is_ok\<close>. The copy loop reads \<open>v_y[i]\<close> for every \<open>i < n\<close> and line 144
  reads \<open>v_x[0]\<close>. The copy loop is out of range when \<open>v_y\<close> is shorter than
  \<open>v_x\<close>; it comes before the two calls of the library, which end the process on fewer
  than three samples and on arguments that do not increase, so that line 144 is reached
  with three samples or more. The count \<open>n\<close> is a natural number: a file of more
  samples than an \<open>int\<close> holds is outside the model.
\<close>

definition init_is_ok ::
  "real \<Rightarrow> filesystem \<Rightarrow> string \<Rightarrow> InterpFunct \<Rightarrow> (InterpFunct \<times> bool) outcome option" where
  "init_is_ok g fs name s =
     (case clear s of
        Undefined \<Rightarrow> Some Undefined
      | Aborts \<Rightarrow> Some Aborts
      | Exits msg c \<Rightarrow> Some (Exits msg c)
      | Returns s1 \<Rightarrow>
          (case readTwoColumnData g fs name [] [] of
             None \<Rightarrow> None
           | Some (is_ok, v_x, v_y) \<Rightarrow>
               if \<not> is_ok then Some (Returns (s1, False))
               else
                 let n = length v_x in
                 if length v_y < n then Some Undefined
                 else if n < cspline_min_size then Some Aborts
                 else if \<not> increasing v_x then Some Aborts
                 else Some (Returns
                   (s1\<lparr>spline := Some (Spline v_x (take n v_y)),
                       x_min := v_x ! 0, x_max := v_x ! (n - 1),
                       y_x_min := v_y ! 0, y_x_max := v_y ! (n - 1),
                       is_unity := False, is_init := True\<rparr>, True))))"

text \<open>
  \<open>init(name)\<close>, lines 157 to 167. A returning call is paired with the text it wrote
  to \<open>std::cout\<close>.
\<close>

definition diagnostic :: "string \<Rightarrow> string" where
  "diagnostic name = ''Can not initialize interp_funct using file '' @ name @ '' !\<newline>''"

definition init_name ::
  "real \<Rightarrow> filesystem \<Rightarrow> string \<Rightarrow> InterpFunct \<Rightarrow> (InterpFunct \<times> string) outcome option" where
  "init_name g fs name s =
     (case init_is_ok g fs name s of
        None \<Rightarrow> None
      | Some Undefined \<Rightarrow> Some Undefined
      | Some Aborts \<Rightarrow> Some Aborts
      | Some (Exits msg c) \<Rightarrow> Some (Exits msg c)
      | Some (Returns (s', is_ok)) \<Rightarrow>
          if \<not> is_ok then Some (Exits (diagnostic name) 0)
          else Some (Returns (s', [])))"

text \<open>\<open>init(x_min_i, x_max_i)\<close>, lines 173 to 180.\<close>

definition init_unity :: "real \<Rightarrow> real \<Rightarrow> InterpFunct \<Rightarrow> InterpFunct" where
  "init_unity x_min_i x_max_i s = s\<lparr>x_min := x_min_i, x_max := x_max_i, is_unity := True\<rparr>"



definition getY :: "(gsl_spline \<Rightarrow> real \<Rightarrow> real) \<Rightarrow> InterpFunct \<Rightarrow> real \<Rightarrow> real outcome" where
  "getY ev s x =
     (if is_unity s then Returns 1
      else if x < x_min s then Returns (y_x_min s)
      else if x > x_max s then Returns (y_x_max s)
      else (case spline s of
              None \<Rightarrow> Undefined
            | Some sp \<Rightarrow> Returns (ev sp x)))"

subsection \<open>States of an object\<close>

text \<open>
  \<open>consistent\<close>: the flag \<open>is_init\<close> is set exactly when a spline is allocated.
  \<open>reachable\<close>: the states an object takes from its construction on, under the calls
  that change it; \<open>getXmin\<close>, \<open>getXmax\<close> and \<open>getY\<close> leave the fields as they are.
\<close>

definition consistent :: "InterpFunct \<Rightarrow> bool" where
  "consistent s = (is_init s = (spline s \<noteq> None))"

inductive reachable :: "InterpFunct \<Rightarrow> bool" where
  new: "reachable (constructor m)"
| from_file: "reachable s \<Longrightarrow> init_is_ok g fs name s = Some (Returns (s', ok)) \<Longrightarrow> reachable s'"
| from_file_or_exit:
    "reachable s \<Longrightarrow> init_name g fs name s = Some (Returns (s', out)) \<Longrightarrow> reachable s'"
| unity: "reachable s \<Longrightarrow> reachable (init_unity a b s)"

subsection \<open>Sample inputs\<close>

text \<open>
  The memory a new object is built in, and a file system:
  \<^item> \<open>squares.dat\<close> holds \<^verbatim>\<open>0 0\n1 1\n2 4\n3 9\n\<close>;
  \<^item> \<open>positive.dat\<close> holds \<^verbatim>\<open>1 1\n2 4\n3 9\n\<close>;
  \<^item> \<open>descending.dat\<close> holds \<^verbatim>\<open>3 1\n2 5\n0 7\n\<close>;
  \<^item> \<open>noeol.dat\<close> holds \<^verbatim>\<open>1 2\n3 4\<close>, with no newline at the end;
  \<^item> \<open>odd.dat\<close> holds \<^verbatim>\<open>1 2\n3\n\<close>;
  \<^item> \<open>text.dat\<close> holds \<^verbatim>\<open>0 0\nabc 1\n\<close>;
  \<^item> \<open>header.dat\<close> holds \<^verbatim>\<open># x y\n0 0\n1 1\n\<close>;
  \<^item> \<open>empty.dat\<close> is empty;
  \<^item> \<open>locked.dat\<close> exists and cannot be opened;
  \<^item> no other name exists.
\<close>

definition mem0 :: InterpFunct where
  "mem0 = \<lparr>spline = None, x_min = 7, x_max = - 2, y_x_min = 3, y_x_max = 4,
            is_unity = True, is_init = True\<rparr>"

definition sample_fs :: filesystem where
  "sample_fs = map_of
     [(''squares.dat'', Readable [Number 0, Space, Number 0, Space, Number 1, Space, Number 1,
         Space, Number 2, Space, Number 4, Space, Number 3, Space, Number 9, Space]),
      (''positive.dat'', Readable [Number 1, Space, Number 1, Space, Number 2, Space, Number 4,
         Space, Number 3, Space, Number 9, Space]),
      (''descending.dat'', Readable [Number 3, Space, Number 1, Space, Number 2, Space, Number 5,
         Space, Number 0, Space, Number 7, Space]),
      (''noeol.dat'', Readable [Number 1, Space, Number 2, Space, Number 3, Space, Number 4]),
      (''odd.dat'', Readable [Number 1, Space, Number 2, Space, Number 3, Space]),
      (''text.dat'', Readable [Number 0, Space, Number 0, Space, Junk, Junk, Junk, Space,
         Number 1, Space]),
      (''header.dat'', Readable [Junk, Space, Junk, Space, Junk, Space, Number 0, Space,
         Number 0, Space, Number 1, Space, Number 1, Space]),
      (''empty.dat'', Readable []),
      (''locked.dat'', Unreadable)]"

definition ev0 :: "gsl_spline \<Rightarrow> real \<Rightarrow> real" where
  "ev0 sp x = 0"

definition squares_loaded :: InterpFunct where
  "squares_loaded = \<lparr>spline = Some (Spline [0, 1, 2, 3] [0, 1, 4, 9]), x_min = 0, x_max = 3,
     y_x_min = 0, y_x_max = 9, is_unity = False, is_init = True\<rparr>"


definition cleared :: InterpFunct where
  "cleared = \<lparr>spline = None, x_min = 0, x_max = 0, y_x_min = 0, y_x_max = 0,
     is_unity = False, is_init = False\<rparr>"

section \<open>Properties of the input stream and of the read loop\<close>

lemma small_in_range: "\<bar>d\<bar> \<le> 1000 \<Longrightarrow> in_range d"
proof -
  have "(1000::real) \<le> DBL_MAX" by (simp add: DBL_MAX_def)
  then show "\<bar>d\<bar> \<le> 1000 \<Longrightarrow> in_range d" by (simp add: in_range_def)
qed

lemma huge_out_of_range: "\<not> in_range (2 * 10 ^ 308)"
  by (simp add: DBL_MAX_def in_range_def)

lemma skipws_length: "length (skipws r) \<le> length r"
  by (induction r rule: skipws.induct) auto

lemma skipws_set: "set (skipws r) \<subseteq> set r"
  by (induction r rule: skipws.induct) auto

lemma skipws_not_Space: "skipws r \<noteq> Space # r'"
  by (induction r rule: skipws.induct) auto

lemma skipws_Junk: "Junk \<in> set r \<Longrightarrow> Junk \<in> set (skipws r)"
  by (induction r rule: skipws.induct) auto

lemma skipws_Cons_facts:
  assumes "skipws r = l # r'"
  shows "l \<noteq> Space" and "l \<in> set r" and "set r' \<subseteq> set r" and "length r' < length r"
proof -
  show "l \<noteq> Space" using assms skipws_not_Space by blast
  have "set (l # r') \<subseteq> set r" using skipws_set [of r] assms by simp
  then show "l \<in> set r" and "set r' \<subseteq> set r" by auto
  have "length (l # r') \<le> length r" using skipws_length [of r] assms by simp
  then show "length r' < length r" by simp
qed

lemma read_loop_eof: "eofbit fin \<Longrightarrow> read_loop g fin x y = Some (x, y)"
  by (subst read_loop.simps) simp

lemma stream_get_failed:
  "failbit fin \<Longrightarrow> \<not> eofbit fin \<Longrightarrow> stream_get fin t = (fin, t)"
  by (simp add: stream_get_def)

lemma stream_get_at_eof:
  "eofbit fin \<Longrightarrow> stream_get fin t = (fin', t') \<Longrightarrow> eofbit fin'"
  by (auto simp: stream_get_def)

text \<open>
  Once \<open>failbit\<close> is set without \<open>eofbit\<close>, every extraction fails at the sentry and
  the loop condition stays true: the loop has no result.
\<close>

lemma read_loop_Some_not_stuck:
  assumes ret: "read_loop g fin x y = Some r"
  shows "eofbit fin \<or> \<not> failbit fin"
proof (rule read_loop.raw_induct
    [where xa = "(((g, fin), x), y)" and ya = r
       and P = "\<lambda>g fin x y r. eofbit fin \<or> \<not> failbit fin", simplified])
  show "read_loop g fin x y = Some r" by (rule ret)
next
  fix rl :: "real \<Rightarrow> ifstream \<Rightarrow> real list \<Rightarrow> real list \<Rightarrow> (real list \<times> real list) option"
  fix g fin x y r
  assume IH: "\<And>g fin x y r. rl g fin x y = Some r \<Longrightarrow> eofbit fin \<or> \<not> failbit fin"
    and body: "(if eofbit fin then Some (x, y)
      else let (fin1, tmp1) = stream_get fin g;
               x1 = if \<not> eofbit fin1 then x @ [tmp1] else x;
               (fin2, tmp2) = stream_get fin1 tmp1
           in Let (if \<not> eofbit fin2 then y @ [tmp2] else y)
               (rl g fin2 x1)) = Some r"
  show "eofbit fin \<or> \<not> failbit fin"
  proof (rule ccontr)
    assume "\<not> (eofbit fin \<or> \<not> failbit fin)"
    then have st: "failbit fin" "\<not> eofbit fin" by auto
    from body st have "rl g fin (x @ [g]) (y @ [g]) = Some r"
      by (simp add: stream_get_failed)
    from IH[OF this] st show False by simp
  qed
qed

lemma read_loop_stuck:
  "failbit fin \<Longrightarrow> \<not> eofbit fin \<Longrightarrow> read_loop g fin x y = None"
  using read_loop_Some_not_stuck [of g fin x y] by (cases "read_loop g fin x y") auto

text \<open>One turn of the loop, by what the two extractions leave.\<close>

lemma read_loop_turn:
  assumes "\<not> eofbit fin" and "stream_get fin g = (fin1, t1)" and "stream_get fin1 t1 = (fin2, t2)"
  shows "read_loop g fin x y =
     read_loop g fin2 (if \<not> eofbit fin1 then x @ [t1] else x)
       (if \<not> eofbit fin2 then y @ [t2] else y)"
  using assms by (subst read_loop.simps) simp

text \<open>
  An extraction from a good stream of numbers in range and whitespace reaches the end
  or leaves a shorter good stream of the same kind.
\<close>

lemma stream_get_numeric:
  assumes "\<not> failbit fin" and "\<not> eofbit fin" and "list_all numeric (rest fin)"
    and "stream_get fin t = (fin', t')"
  shows "eofbit fin' \<or> (\<not> failbit fin' \<and> list_all numeric (rest fin')
           \<and> length (rest fin') < length (rest fin))"
proof (cases "skipws (rest fin)")
  case Nil
  with assms show ?thesis by (auto simp: stream_get_def)
next
  case (Cons l r)
  note c = skipws_Cons_facts [OF Cons]
  from c(2) assms(3) have nl: "numeric l" by (simp add: list_all_iff)
  from c(3) assms(3) have nr: "list_all numeric r" by (auto simp: list_all_iff)
  from nl c(1) obtain d where l: "l = Number d" "in_range d" by (cases l) auto
  with assms Cons nr c(4) show ?thesis by (auto simp: stream_get_def)
qed

lemma read_loop_returns:
  "\<not> failbit fin \<Longrightarrow> list_all numeric (rest fin) \<Longrightarrow> \<exists>r. read_loop g fin x y = Some r"
proof (induction "length (rest fin)" arbitrary: fin x y rule: less_induct)
  case less
  show ?case
  proof (cases "eofbit fin")
    case True
    then show ?thesis by (simp add: read_loop_eof)
  next
    case neof: False
    obtain fin1 t1 where g1: "stream_get fin g = (fin1, t1)" by (cases "stream_get fin g")
    obtain fin2 t2 where g2: "stream_get fin1 t1 = (fin2, t2)" by (cases "stream_get fin1 t1")
    note turn = read_loop_turn [OF neof g1 g2]
    from stream_get_numeric [OF less.prems(1) neof less.prems(2) g1]
    consider "eofbit fin1"
      | "\<not> eofbit fin1" "\<not> failbit fin1" "list_all numeric (rest fin1)"
        "length (rest fin1) < length (rest fin)"
      by blast
    then show ?thesis
    proof cases
      case 1
      then have "eofbit fin2" using g2 by (rule stream_get_at_eof)
      then show ?thesis by (simp add: turn read_loop_eof)
    next
      case 2
      from stream_get_numeric [OF 2(2) 2(1) 2(3) g2]
      consider "eofbit fin2"
        | "\<not> failbit fin2" "list_all numeric (rest fin2)"
          "length (rest fin2) < length (rest fin1)"
        by blast
      then show ?thesis
      proof cases
        case 1
        then show ?thesis by (simp add: turn read_loop_eof)
      next
        case b: 2
        from b(3) 2(4) have "length (rest fin2) < length (rest fin)" by simp
        from less.hyps [OF this b(1) b(2)] show ?thesis by (simp add: turn)
      qed
    qed
  qed
qed

text \<open>
  An extraction from a good stream that still holds a character the scanner does not
  take never reaches the end: it fails, or it leaves a shorter stream that holds the
  character.
\<close>

lemma stream_get_junk:
  assumes "\<not> failbit fin" and "\<not> eofbit fin" and "Junk \<in> set (rest fin)"
    and "stream_get fin t = (fin', t')"
  shows "\<not> eofbit fin' \<and> Junk \<in> set (rest fin')
           \<and> (failbit fin' \<or> length (rest fin') < length (rest fin))"
proof -
  from assms(3) have j: "Junk \<in> set (skipws (rest fin))" by (rule skipws_Junk)
  then obtain l r where Cons: "skipws (rest fin) = l # r"
    by (cases "skipws (rest fin)") auto
  note c = skipws_Cons_facts [OF Cons]
  show ?thesis
  proof (cases l)
    case Space
    with c show ?thesis by simp
  next
    case Junk
    with assms Cons show ?thesis by (auto simp: stream_get_def)
  next
    case Malformed
    with j Cons have "Junk \<in> set r" by simp
    moreover from this have "r \<noteq> []" by auto
    ultimately show ?thesis using assms Cons Malformed c(4) by (auto simp: stream_get_def)
  next
    case (Number d)
    with j Cons have "Junk \<in> set r" by simp
    moreover from this have "r \<noteq> []" by auto
    ultimately show ?thesis using assms Cons Number c(4)
      by (auto simp: stream_get_def split: if_splits)
  qed
qed

lemma read_loop_junk:
  "\<not> failbit fin \<Longrightarrow> \<not> eofbit fin \<Longrightarrow> Junk \<in> set (rest fin) \<Longrightarrow> read_loop g fin x y = None"
proof (induction "length (rest fin)" arbitrary: fin x y rule: less_induct)
  case less
  obtain fin1 t1 where g1: "stream_get fin g = (fin1, t1)" by (cases "stream_get fin g")
  obtain fin2 t2 where g2: "stream_get fin1 t1 = (fin2, t2)" by (cases "stream_get fin1 t1")
  note turn = read_loop_turn [OF less.prems(2) g1 g2]
  from stream_get_junk [OF less.prems g1]
  have f1: "\<not> eofbit fin1" "Junk \<in> set (rest fin1)"
    "failbit fin1 \<or> length (rest fin1) < length (rest fin)" by simp_all
  show ?case
  proof (cases "failbit fin1")
    case True
    with f1(1) g2 have "fin2 = fin1" by (simp add: stream_get_failed)
    with True f1(1) show ?thesis by (simp add: turn read_loop_stuck)
  next
    case good1: False
    from stream_get_junk [OF good1 f1(1) f1(2) g2]
    have f2: "\<not> eofbit fin2" "Junk \<in> set (rest fin2)"
      "failbit fin2 \<or> length (rest fin2) < length (rest fin1)" by simp_all
    show ?thesis
    proof (cases "failbit fin2")
      case True
      with f2(1) show ?thesis by (simp add: turn read_loop_stuck)
    next
      case good2: False
      with f2(3) f1(3) good1 have "length (rest fin2) < length (rest fin)" by simp
      from less.hyps [OF this good2 f2(1) f2(2)] show ?thesis by (simp add: turn)
    qed
  qed
qed

text \<open>
  Two files outside the samples: \<^verbatim>\<open>1 2e\<close> ends with a run that is no number and
  reaches the end of the file, and the loop returns with one \<open>x\<close> value;
  \<^verbatim>\<open>1 2e308\n3 4\n\<close> holds a number beyond the range of \<open>double\<close> before its end,
  and the loop never returns.
\<close>

lemma malformed_tail_returns:
  "read_loop g (ifstream_open (Readable [Number 1, Space, Malformed])) [] [] = Some ([1], [])"
  by (simp add: ifstream_open_def read_loop.simps stream_get_def small_in_range)

lemma overflow_never_returns:
  "read_loop g (ifstream_open (Readable [Number 1, Space, Number (2 * 10 ^ 308), Space,
      Number 3, Space, Number 4, Space])) [] [] = None"
  by (subst read_loop.simps)
    (simp add: ifstream_open_def stream_get_def in_range_def DBL_MAX_def read_loop_stuck)

text \<open>A list that increases from sample to sample has its first element below its last.\<close>

lemma increasing_Cons_last: "increasing (a # r) \<Longrightarrow> r \<noteq> [] \<Longrightarrow> a < last r"
proof (induction r arbitrary: a)
  case Nil
  then show ?case by simp
next
  case (Cons b r)
  show ?case
  proof (cases "r = []")
    case True
    with Cons.prems show ?thesis by simp
  next
    case False
    with Cons.prems Cons.IH [of b] have "a < b" "b < last r" by simp_all
    with False show ?thesis by simp
  qed
qed

lemma increasing_hd_last:
  assumes "increasing v" and "2 \<le> length v"
  shows "hd v < last v"
proof (cases v)
  case Nil
  with assms(2) show ?thesis by simp
next
  case (Cons a r)
  with assms have "increasing (a # r)" "r \<noteq> []" by auto
  then have "a < last r" by (rule increasing_Cons_last)
  with Cons \<open>r \<noteq> []\<close> show ?thesis by simp
qed

section \<open>The sample inputs, evaluated\<close>

lemma squares_stat:
  "sample_fs ''squares.dat'' = Some (Readable [Number 0, Space, Number 0, Space, Number 1,
     Space, Number 1, Space, Number 2, Space, Number 4, Space, Number 3, Space, Number 9,
     Space])"
  by (simp add: sample_fs_def)

lemma missing_stat: "sample_fs ''missing.dat'' = None"
  by (simp add: sample_fs_def)

lemma empty_stat: "sample_fs ''empty.dat'' = Some (Readable [])"
  by (simp add: sample_fs_def)

lemma locked_stat: "sample_fs ''locked.dat'' = Some Unreadable"
  by (simp add: sample_fs_def)

lemma squares_read:
  "readTwoColumnData g sample_fs ''squares.dat'' [] [] = Some (True, [0, 1, 2, 3], [0, 1, 4, 9])"
  by (simp add: readTwoColumnData_def squares_stat ifstream_open_def read_loop.simps
      stream_get_def small_in_range)

lemma empty_read: "readTwoColumnData g sample_fs ''empty.dat'' [] [] = Some (True, [], [])"
  by (simp add: readTwoColumnData_def empty_stat ifstream_open_def read_loop.simps
      stream_get_def)

lemma descending_read:
  "readTwoColumnData g sample_fs ''descending.dat'' [] [] = Some (True, [3, 2, 0], [1, 5, 7])"
  by (simp add: readTwoColumnData_def sample_fs_def ifstream_open_def read_loop.simps
      stream_get_def small_in_range)

lemma locked_read: "readTwoColumnData g sample_fs ''locked.dat'' [] [] = None"
  by (simp add: readTwoColumnData_def locked_stat ifstream_open_def read_loop_stuck)

lemma squares_init:
  "init_is_ok g sample_fs ''squares.dat'' (constructor mem0) = Some (Returns (squares_loaded, True))"
  by (simp add: init_is_ok_def clear_def constructor_def mem0_def squares_read
      squares_loaded_def cspline_min_size_def)


lemma empty_init: "init_is_ok g sample_fs ''empty.dat'' (constructor mem0) = Some Aborts"
  by (simp add: init_is_ok_def clear_def constructor_def empty_read cspline_min_size_def)

lemma descending_init:
  "init_is_ok g sample_fs ''descending.dat'' (constructor mem0) = Some Aborts"
  by (simp add: init_is_ok_def clear_def constructor_def descending_read cspline_min_size_def)

lemma missing_init_constructed:
  "init_is_ok g sample_fs ''missing.dat'' (constructor mem0) = Some (Returns (constructor mem0, False))"
  by (simp add: init_is_ok_def clear_def constructor_def mem0_def readTwoColumnData_def
      missing_stat)

lemma missing_init_loaded:
  "init_is_ok g sample_fs ''missing.dat'' squares_loaded = Some (Returns (cleared, False))"
  by (simp add: init_is_ok_def clear_def squares_loaded_def cleared_def readTwoColumnData_def
      missing_stat)

section \<open>Properties of the object\<close>



lemma init_is_ok_consistent:
  "consistent s \<Longrightarrow> init_is_ok g fs name s = Some (Returns (s', ok)) \<Longrightarrow> consistent s'"
  by (auto simp: init_is_ok_def clear_def consistent_def Let_def
      split: outcome.splits option.splits prod.splits if_splits)

lemma init_name_consistent:
  "consistent s \<Longrightarrow> init_name g fs name s = Some (Returns (s', out)) \<Longrightarrow> consistent s'"
  by (auto simp: init_name_def split: outcome.splits option.splits prod.splits if_splits
      dest: init_is_ok_consistent)

text \<open>Every reachable state is consistent, so \<open>clear\<close> never frees a missing spline.\<close>

lemma reachable_consistent: "reachable s \<Longrightarrow> consistent s"
proof (induction rule: reachable.induct)
  case (new m)
  show ?case by (simp add: consistent_def constructor_def)
next
  case (from_file s g fs name s' ok)
  then show ?case by (blast intro: init_is_ok_consistent)
next
  case (from_file_or_exit s g fs name s' out)
  then show ?case by (blast intro: init_name_consistent)
next
  case (unity s a b)
  then show ?case by (simp add: consistent_def init_unity_def)
qed

text \<open>
  What a successful \<open>init(name, is_ok)\<close> leaves: three samples or more, arguments that
  increase, and the first and last sample in the four cached fields.
\<close>

lemma init_is_ok_success:
  assumes "init_is_ok g fs name s = Some (Returns (s', True))"
  shows "\<exists>v_x v_y. readTwoColumnData g fs name [] [] = Some (True, v_x, v_y)
           \<and> 3 \<le> length v_x \<and> length v_x \<le> length v_y \<and> increasing v_x
           \<and> x_min s' = hd v_x \<and> x_max s' = last v_x
           \<and> y_x_min s' = hd v_y \<and> y_x_max s' = v_y ! (length v_x - 1)
           \<and> \<not> is_unity s' \<and> is_init s'
           \<and> spline s' = Some (Spline v_x (take (length v_x) v_y))"
proof -
  from assms obtain s1 v_x v_y where
    rd: "readTwoColumnData g fs name [] [] = Some (True, v_x, v_y)"
    and len: "3 \<le> length v_x" "length v_x \<le> length v_y" and inc: "increasing v_x"
    and s': "s' = s1\<lparr>spline := Some (Spline v_x (take (length v_x) v_y)),
                x_min := v_x ! 0, x_max := v_x ! (length v_x - 1),
                y_x_min := v_y ! 0, y_x_max := v_y ! (length v_x - 1),
                is_unity := False, is_init := True\<rparr>"
    by (auto simp: init_is_ok_def Let_def cspline_min_size_def
        split: outcome.splits option.splits prod.splits if_splits)
  from len have ne: "v_x \<noteq> []" "v_y \<noteq> []" by auto
  with s' have "x_min s' = hd v_x" "x_max s' = last v_x" "y_x_min s' = hd v_y"
    "y_x_max s' = v_y ! (length v_x - 1)" "\<not> is_unity s'" "is_init s'"
    "spline s' = Some (Spline v_x (take (length v_x) v_y))"
    by (simp_all add: hd_conv_nth last_conv_nth)
  with rd len inc show ?thesis by blast
qed

lemma init_is_ok_ordered:
  assumes "init_is_ok g fs name s = Some (Returns (s', True))"
  shows "x_min s' < x_max s'"
proof -
  from init_is_ok_success [OF assms] obtain v_x where
    "3 \<le> length v_x" "increasing v_x" "x_min s' = hd v_x" "x_max s' = last v_x" by blast
  then show ?thesis using increasing_hd_last [of v_x] by simp
qed






section \<open>The claims\<close>

text \<open>
  Claim C1. After \<open>init(name, is_ok)\<close> has returned with \<open>is_ok\<close> true, \<open>getY\<close>
  returns exactly the cached \<open>y_x_min\<close> for every \<open>x\<close> strictly below \<open>x_min\<close> and
  exactly the cached \<open>y_x_max\<close> for every \<open>x\<close> strictly above \<open>x_max\<close>, whatever
  the spline evaluation \<open>ev\<close> is; the four cached values are the first and the last
  sample read from the file.
\<close>

theorem C1_flat_outside_domain:
  assumes "init_is_ok g fs name s = Some (Returns (s', True))"
  shows "(x < x_min s' \<longrightarrow> getY ev s' x = Returns (y_x_min s'))
       \<and> (x_max s' < x \<longrightarrow> getY ev s' x = Returns (y_x_max s'))
       \<and> (\<exists>v_x v_y. readTwoColumnData g fs name [] [] = Some (True, v_x, v_y)
             \<and> x_min s' = hd v_x \<and> x_max s' = last v_x
             \<and> y_x_min s' = hd v_y \<and> y_x_max s' = v_y ! (length v_x - 1))"
proof -
  from init_is_ok_success [OF assms] have nu: "\<not> is_unity s'" by blast
  have ord: "x_min s' < x_max s'" using assms by (rule init_is_ok_ordered)
  have "x < x_min s' \<longrightarrow> getY ev s' x = Returns (y_x_min s')"
    using nu by (simp add: getY_def)
  moreover have "x_max s' < x \<longrightarrow> getY ev s' x = Returns (y_x_max s')"
    using nu ord by (auto simp: getY_def)
  ultimately show ?thesis using init_is_ok_success [OF assms] by blast
qed

text \<open>
  On \<open>squares.dat\<close>: the value at \<open>-5\<close> is 0 and the value at 100 is 9.
\<close>

theorem C1_flat_outside_domain_witness:
  "init_is_ok 0 sample_fs ''squares.dat'' (constructor mem0) = Some (Returns (squares_loaded, True))
   \<and> - 5 < x_min squares_loaded \<and> getY ev0 squares_loaded (- 5) = Returns 0
   \<and> x_max squares_loaded < 100 \<and> getY ev0 squares_loaded 100 = Returns 9"
  using C1_flat_outside_domain [OF squares_init [of 0], where x = "- 5" and ev = ev0]
    C1_flat_outside_domain [OF squares_init [of 0], where x = 100 and ev = ev0]
  by (simp add: squares_init squares_loaded_def)

text \<open>
  Claim C2. After \<open>init(x_min_i, x_max_i)\<close>, \<open>getY\<close> returns exactly 1 for every
  argument, for every pair of bounds in any order and from every state of the object.
\<close>

theorem C2_unity_everywhere: "getY ev (init_unity a b s) x = Returns 1"
  by (simp add: getY_def init_unity_def)




text \<open>
  Claim C4, as the code has it. When \<open>init(name, is_ok)\<close> returns with \<open>is_ok\<close> false,
  the object is in the state \<open>clear\<close> leaves: the state before the call when
  \<open>is_init\<close> was false, and otherwise that state with the spline released, the two bounds
  and the two boundary values 0 and both flags false.
\<close>

theorem C4_failed_init_leaves_cleared_state:
  assumes "init_is_ok g fs name s = Some (Returns (s', False))"
  shows "clear s = Returns s'
       \<and> (\<not> is_init s \<longrightarrow> s' = s)
       \<and> (is_init s \<longrightarrow> s' = s\<lparr>spline := None, x_min := 0, x_max := 0, y_x_min := 0,
                                   y_x_max := 0, is_unity := False, is_init := False\<rparr>)"
proof -
  from assms have c: "clear s = Returns s'"
    by (auto simp: init_is_ok_def Let_def
        split: outcome.splits option.splits prod.splits if_splits)
  then show ?thesis
    by (auto simp: clear_def split: if_splits option.splits)
qed

text \<open>
  A new object set to unity and then refused a missing file is unchanged; the object loaded
  from \<open>squares.dat\<close> is cleared by the same call.
\<close>

theorem C4_failed_init_leaves_cleared_state_witness:
  "init_is_ok 0 sample_fs ''missing.dat'' (init_unity 0 1 (constructor mem0)) =
     Some (Returns (init_unity 0 1 (constructor mem0), False))
   \<and> \<not> is_init (init_unity 0 1 (constructor mem0))
   \<and> init_is_ok 0 sample_fs ''missing.dat'' squares_loaded = Some (Returns (cleared, False))
   \<and> is_init squares_loaded
   \<and> clear squares_loaded = Returns cleared"
proof -
  have a: "init_is_ok 0 sample_fs ''missing.dat'' (init_unity 0 1 (constructor mem0)) =
     Some (Returns (init_unity 0 1 (constructor mem0), False))"
    by (simp add: init_is_ok_def clear_def constructor_def init_unity_def mem0_def
        readTwoColumnData_def missing_stat)
  show ?thesis
    using C4_failed_init_leaves_cleared_state [OF a]
      C4_failed_init_leaves_cleared_state [OF missing_init_loaded [of 0]]
    by (simp add: a missing_init_loaded) (simp add: squares_loaded_def init_unity_def constructor_def)
qed

text \<open>
  Claim C4 as stated fails on an object in data mode: after \<open>squares.dat\<close> is loaded,
  a call with a missing file leaves another state, and \<open>getY\<close> at 100 returns 0 where it
  returned 9.
\<close>

theorem C4_counterexample:
  "init_is_ok 0 sample_fs ''squares.dat'' (constructor mem0) = Some (Returns (squares_loaded, True))
   \<and> init_is_ok 0 sample_fs ''missing.dat'' squares_loaded = Some (Returns (cleared, False))
   \<and> cleared \<noteq> squares_loaded
   \<and> getY ev0 squares_loaded 100 = Returns 9
   \<and> getY ev0 cleared 100 = Returns 0"
  by (simp add: squares_init missing_init_loaded)
     (simp add: squares_loaded_def cleared_def getY_def)

text \<open>
  Claim C5 says that the samples kept are the complete pairs of the file. The code keeps a
  value when the extraction has not set \<open>eofbit\<close>, that is when the token is followed by
  another character. \<open>noeol.dat\<close> has two complete pairs and ends with its last digit:
  the second \<open>y\<close> value is lost. \<open>odd.dat\<close> has one complete pair, a third number and a
  final newline: the third number is appended to \<open>x\<close>.
\<close>

theorem C5_last_token_depends_on_trailing_space:
  "readTwoColumnData 0 sample_fs ''noeol.dat'' [] [] = Some (True, [1, 3], [2])
   \<and> readTwoColumnData 0 sample_fs ''odd.dat'' [] [] = Some (True, [1, 3], [2])"
  by (simp add: readTwoColumnData_def sample_fs_def ifstream_open_def read_loop.simps
      stream_get_def small_in_range)

text \<open>
  Claim C6 says that \<open>init(name, is_ok)\<close> returns for every content of an existing file.
  On \<open>text.dat\<close> the extraction at \<open>abc\<close> sets \<open>failbit\<close> and not \<open>eofbit\<close>;
  the loop tests \<open>eofbit\<close> only, and neither \<open>readTwoColumnData\<close> nor the call
  returns.
\<close>

theorem C6_read_loop_never_ends_on_text:
  "sample_fs ''text.dat'' = Some (Readable [Number 0, Space, Number 0, Space, Junk, Junk, Junk,
      Space, Number 1, Space])
   \<and> readTwoColumnData 0 sample_fs ''text.dat'' [] [] = None
   \<and> init_is_ok 0 sample_fs ''text.dat'' (constructor mem0) = None"
proof -
  have f: "sample_fs ''text.dat'' = Some (Readable [Number 0, Space, Number 0, Space, Junk,
      Junk, Junk, Space, Number 1, Space])"
    by (simp add: sample_fs_def)
  have r: "readTwoColumnData 0 sample_fs ''text.dat'' [] [] = None"
    by (simp add: readTwoColumnData_def f ifstream_open_def read_loop_junk)
  have "init_is_ok 0 sample_fs ''text.dat'' (constructor mem0) = None"
    by (simp add: init_is_ok_def clear_def constructor_def r)
  with f r show ?thesis by simp
qed

text \<open>
  Claim C7 says that on a file that does not exist or cannot be opened
  \<open>init(name, is_ok)\<close> sets \<open>is_ok\<close> to false and leaves the object not usable. For a
  name that \<open>stat\<close> does not find the call does return false. \<open>locked.dat\<close> exists and
  cannot be opened: \<open>stat\<close> succeeds, the stream starts with \<open>failbit\<close> set, the loop
  tests \<open>eofbit\<close> only, and the call never returns. And a new object set to unity is
  left as it was by a call with a missing file: \<open>getY\<close> still returns 1.
\<close>

theorem C7_unopenable_file_never_returns:
  "sample_fs ''locked.dat'' = Some Unreadable
   \<and> readTwoColumnData 0 sample_fs ''locked.dat'' [] [] = None
   \<and> init_is_ok 0 sample_fs ''locked.dat'' (constructor mem0) = None
   \<and> init_is_ok 0 sample_fs ''missing.dat'' (init_unity 0 1 (constructor mem0)) =
       Some (Returns (init_unity 0 1 (constructor mem0), False))
   \<and> getY ev0 (init_unity 0 1 (constructor mem0)) 5 = Returns 1"
proof -
  have "init_is_ok 0 sample_fs ''locked.dat'' (constructor mem0) = None"
    by (simp add: init_is_ok_def clear_def constructor_def locked_read)
  moreover have "init_is_ok 0 sample_fs ''missing.dat'' (init_unity 0 1 (constructor mem0)) =
       Some (Returns (init_unity 0 1 (constructor mem0), False))"
    by (simp add: init_is_ok_def clear_def constructor_def init_unity_def mem0_def
        readTwoColumnData_def missing_stat)
  moreover have "getY ev0 (init_unity 0 1 (constructor mem0)) 5 = Returns 1"
    by (simp add: getY_def init_unity_def)
  ultimately show ?thesis by (simp add: locked_stat locked_read)
qed

text \<open>
  Claim C8 says that a spline is held exactly in data mode and that every initialisation
  releases the spline held before. \<open>init(x_min_i, x_max_i)\<close> does not call \<open>clear\<close>:
  after \<open>squares.dat\<close> is loaded and the object is set to unity, the object is in unity
  mode and still holds the spline of the file.
\<close>

theorem C8_unity_init_keeps_spline:
  "init_is_ok 0 sample_fs ''squares.dat'' (constructor mem0) = Some (Returns (squares_loaded, True))
   \<and> spline (init_unity 0 1 squares_loaded) = Some (Spline [0, 1, 2, 3] [0, 1, 4, 9])
   \<and> is_unity (init_unity 0 1 squares_loaded)
   \<and> getY ev0 (init_unity 0 1 squares_loaded) 2 = Returns 1"
  by (simp add: squares_init) (simp add: squares_loaded_def init_unity_def getY_def)




text \<open>
  Claim C10 says that \<open>init(name, is_ok)\<close> reports success for every file that
  \<open>stat\<close> finds, whatever it holds, an empty file included. \<open>stat\<close> finds
  \<open>header.dat\<close>, whose first line is a comment, and the call never returns, so that
  nothing is reported. \<open>stat\<close> finds the empty file, \<open>readTwoColumnData\<close> returns true
  with no samples, and the call ends the process in the allocation of a spline of zero
  points instead of returning with \<open>is_ok\<close> true.
\<close>

theorem C10_existing_file_without_success:
  "sample_fs ''header.dat'' = Some (Readable [Junk, Space, Junk, Space, Junk, Space, Number 0,
      Space, Number 0, Space, Number 1, Space, Number 1, Space])
   \<and> readTwoColumnData 0 sample_fs ''header.dat'' [] [] = None
   \<and> init_is_ok 0 sample_fs ''header.dat'' (constructor mem0) = None
   \<and> sample_fs ''empty.dat'' = Some (Readable [])
   \<and> readTwoColumnData 0 sample_fs ''empty.dat'' [] [] = Some (True, [], [])
   \<and> init_is_ok 0 sample_fs ''empty.dat'' (constructor mem0) = Some Aborts"
proof -
  have f: "sample_fs ''header.dat'' = Some (Readable [Junk, Space, Junk, Space, Junk, Space,
      Number 0, Space, Number 0, Space, Number 1, Space, Number 1, Space])"
    by (simp add: sample_fs_def)
  have r: "readTwoColumnData 0 sample_fs ''header.dat'' [] [] = None"
    by (simp add: readTwoColumnData_def f ifstream_open_def read_loop_junk)
  then have l: "init_is_ok 0 sample_fs ''header.dat'' (constructor mem0) = None"
    by (simp add: init_is_ok_def clear_def constructor_def)
  from f r l show ?thesis by (simp add: empty_stat empty_read empty_init)
qed

end
